theory Spec2Isabelle
  imports Main
begin

section \<open>Python strings\<close>

text \<open>
  The two analyzers (\<^verbatim>\<open>scripts/verify_metrics.py\<close> and \<^verbatim>\<open>tools/check_code_metrics.py\<close>)
  work on decoded text. A Python \<^verbatim>\<open>str\<close> is modelled as a HOL \<^typ>\<open>string\<close>, one
  \<^typ>\<open>char\<close> per code point, so the model covers text whose code points are below 256.
  The character classes below are Python's (\<^verbatim>\<open>str.isspace\<close>, and the \<^verbatim>\<open>\s\<close>, \<^verbatim>\<open>\w\<close> and
  \<^verbatim>\<open>.\<close> of the \<^verbatim>\<open>re\<close> module on \<^verbatim>\<open>str\<close> patterns) restricted to that range.
\<close>

definition whitespace :: string where
  "whitespace =
     [CHR 0x09, CHR 0x0A, CHR 0x0B, CHR 0x0C, CHR 0x0D, CHR 0x1C, CHR 0x1D, CHR 0x1E,
      CHR 0x1F, CHR 0x20, CHR 0x85, CHR 0xA0]"

definition isspace :: "char \<Rightarrow> bool" where
  "isspace c = (c \<in> set whitespace)"

text \<open>\<^verbatim>\<open>s.strip()\<close>: leading and trailing whitespace removed.\<close>

definition strip :: "string \<Rightarrow> string" where
  "strip s = rev (dropWhile isspace (rev (dropWhile isspace s)))"

text \<open>\<^verbatim>\<open>s.startswith(p)\<close>.\<close>

fun startswith :: "string \<Rightarrow> string \<Rightarrow> bool" where
  "startswith s [] = True"
| "startswith [] (p # ps) = False"
| "startswith (c # cs) (p # ps) = (c = p \<and> startswith cs ps)"

text \<open>\<^verbatim>\<open>sub in s\<close>: \<open>sub\<close> occurs in \<open>s\<close> as a contiguous substring.\<close>

fun contains :: "string \<Rightarrow> string \<Rightarrow> bool" where
  "contains sub [] = (sub = [])"
| "contains sub (c # cs) = (startswith (c # cs) sub \<or> contains sub cs)"

text \<open>\<^verbatim>\<open>line.count('{') - line.count('}')\<close>, a Python integer that may be negative.\<close>

definition net_braces :: "string \<Rightarrow> int" where
  "net_braces line = int (count_list line (CHR ''{'')) - int (count_list line (CHR ''}''))"

text \<open>
  \<^verbatim>\<open>f.readlines()\<close> on a file opened in text mode: the lines of the decoded content, each
  keeping its terminating newline; \<^verbatim>\<open>content.split('\n')\<close>: the pieces between newlines,
  without them (so a content that ends in a newline gives a last empty piece).
\<close>

fun readlines :: "string \<Rightarrow> string list" where
  "readlines [] = []"
| "readlines (c # cs) =
     (if c = CHR 0x0A then [c] # readlines cs
      else (case readlines cs of [] \<Rightarrow> [[c]] | l # ls \<Rightarrow> (c # l) # ls))"

fun split_newline :: "string \<Rightarrow> string list" where
  "split_newline [] = [[]]"
| "split_newline (c # cs) =
     (if c = CHR 0x0A then [] # split_newline cs
      else (case split_newline cs of [] \<Rightarrow> [[c]] | l # ls \<Rightarrow> (c # l) # ls))"

text \<open>
  The file system as the analyzers see it: the decoded content of a path, or \<open>None\<close> where
  \<^verbatim>\<open>open\<close> or the read raises (a missing file, no permission, bytes that are not UTF-8).
  Both analyzers catch that exception and print a message; the messages are modelled by
  their kind and path (the text of the exception itself comes from the operating system).
\<close>

type_synonym filesystem = "string \<Rightarrow> string option"

datatype message =
    Error_reading string
  | Error_checking string
  | Error_checking_functions string

section \<open>\<^verbatim>\<open>tools/check_code_metrics.py\<close>: counting code lines\<close>

definition MAX_FILE_LINES :: nat where
  "MAX_FILE_LINES = 500"

definition MAX_FUNCTION_LINES :: nat where
  "MAX_FUNCTION_LINES = 50"

text \<open>
  One iteration of the loop of \<^verbatim>\<open>CodeMetrics.count_code_lines\<close>, on the pair
  \<open>(count, in_block_comment)\<close>.
\<close>

definition count_code_lines_step :: "nat \<times> bool \<Rightarrow> string \<Rightarrow> nat \<times> bool" where
  "count_code_lines_step st line =
     (case st of (count, in_block_comment) \<Rightarrow>
        let stripped = strip line in
        if stripped = [] then (count, in_block_comment)
        else
          let in_block_comment = (if contains ''/*'' stripped then True else in_block_comment) in
          if contains ''*/'' stripped then (count, False)
          else if in_block_comment then (count, in_block_comment)
          else if startswith stripped ''//'' \<or> startswith stripped ''#'' then (count, in_block_comment)
          else (count + 1, in_block_comment))"

definition count_code_lines :: "string list \<Rightarrow> nat" where
  "count_code_lines lines = fst (foldl count_code_lines_step (0, False) lines)"

section \<open>\<^verbatim>\<open>scripts/verify_metrics.py\<close>: classifying the lines of a file\<close>

definition is_comment_line :: "string \<Rightarrow> string \<Rightarrow> bool" where
  "is_comment_line line lang =
     (let stripped = strip line in
      if lang = ''dart'' then
        startswith stripped ''//'' \<or> startswith stripped ''/*'' \<or> startswith stripped ''*''
      else if lang = ''rust'' then
        startswith stripped ''//'' \<or> startswith stripped ''/*'' \<or> startswith stripped ''*''
      else False)"

definition is_blank_line :: "string \<Rightarrow> bool" where
  "is_blank_line line = (length (strip line) = 0)"

text \<open>
  One iteration of the loop of \<^verbatim>\<open>MetricsAnalyzer.count_file_lines\<close>, on the state
  \<open>(code_lines, comment_lines, blank_lines, in_block_comment)\<close>.
\<close>

definition count_file_lines_step ::
  "string \<Rightarrow> nat \<times> nat \<times> nat \<times> bool \<Rightarrow> string \<Rightarrow> nat \<times> nat \<times> nat \<times> bool" where
  "count_file_lines_step lang st line =
     (case st of (code, comment, blank, in_block) \<Rightarrow>
        let stripped = strip line in
        if is_blank_line line then (code, comment, blank + 1, in_block)
        else if contains ''/*'' stripped then
          (code, comment + 1, blank, (if contains ''*/'' stripped then False else True))
        else if in_block then
          (code, comment + 1, blank, (if contains ''*/'' stripped then False else in_block))
        else if is_comment_line line lang then (code, comment + 1, blank, in_block)
        else (code + 1, comment, blank, in_block))"

text \<open>
  \<^verbatim>\<open>count_file_lines(file_path, lang)\<close> returns
  \<open>(total_lines, code_lines, comment_lines, blank_lines)\<close>; the second component of the
  model is what the call printed.
\<close>

definition count_file_lines ::
  "filesystem \<Rightarrow> string \<Rightarrow> string \<Rightarrow> (nat \<times> nat \<times> nat \<times> nat) \<times> message list" where
  "count_file_lines fs file_path lang =
     (case fs file_path of
        None \<Rightarrow> ((0, 0, 0, 0), [Error_reading file_path])
      | Some content \<Rightarrow>
          let lines = readlines content in
          (case foldl (count_file_lines_step lang) (0, 0, 0, False) lines of
             (code, comment, blank, in_block) \<Rightarrow> ((length lines, code, comment, blank), [])))"

section \<open>Regular expressions\<close>

text \<open>
  The signature patterns use no back-references and no look-around, so whether
  \<^verbatim>\<open>re.match\<close> finds a match is a question about the pattern's regular language: it does
  iff some prefix of the line belongs to it. The matcher below decides that with
  derivatives. Every pattern of the two analyzers starts with \<^verbatim>\<open>^\<close> and is compiled without
  flags, so \<^verbatim>\<open>pattern.search(line)\<close> matches at position 0 or not at all, as
  \<^verbatim>\<open>re.match\<close> does.
\<close>

definition isword :: "char \<Rightarrow> bool" where
  "isword c =
     (let n = (of_char c :: nat) in
      (48 \<le> n \<and> n \<le> 57) \<or> (65 \<le> n \<and> n \<le> 90) \<or> n = 95 \<or> (97 \<le> n \<and> n \<le> 122) \<or>
      n = 170 \<or> (178 \<le> n \<and> n \<le> 179) \<or> n = 181 \<or> (185 \<le> n \<and> n \<le> 186) \<or>
      (188 \<le> n \<and> n \<le> 190) \<or> (192 \<le> n \<and> n \<le> 214) \<or> (216 \<le> n \<and> n \<le> 246) \<or>
      (248 \<le> n \<and> n \<le> 255))"

definition isletter :: "char \<Rightarrow> bool" where
  "isletter c =
     (let n = (of_char c :: nat) in (65 \<le> n \<and> n \<le> 90) \<or> n = 95 \<or> (97 \<le> n \<and> n \<le> 122))"

text \<open>
  Character sets: a literal character, \<^verbatim>\<open>\s\<close>, \<^verbatim>\<open>\w\<close>, \<^verbatim>\<open>.\<close> (anything but a newline),
  \<^verbatim>\<open>[A-Za-z_]\<close>, a negated one-character class such as \<^verbatim>\<open>[^>]\<close>, and unions.
\<close>

datatype cset = Chr char | Space | Word | Dot | Letter | Except char | Either cset cset

fun in_cset :: "cset \<Rightarrow> char \<Rightarrow> bool" where
  "in_cset (Chr a) c = (c = a)"
| "in_cset Space c = isspace c"
| "in_cset Word c = isword c"
| "in_cset Dot c = (c \<noteq> CHR 0x0A)"
| "in_cset Letter c = isletter c"
| "in_cset (Except a) c = (c \<noteq> a)"
| "in_cset (Either A B) c = (in_cset A c \<or> in_cset B c)"

datatype rexp = Null | Eps | Sym cset | Alt rexp rexp | Seq rexp rexp | Star rexp

fun nullable :: "rexp \<Rightarrow> bool" where
  "nullable Null = False"
| "nullable Eps = True"
| "nullable (Sym A) = False"
| "nullable (Alt r s) = (nullable r \<or> nullable s)"
| "nullable (Seq r s) = (nullable r \<and> nullable s)"
| "nullable (Star r) = True"

fun deriv :: "char \<Rightarrow> rexp \<Rightarrow> rexp" where
  "deriv c Null = Null"
| "deriv c Eps = Null"
| "deriv c (Sym A) = (if in_cset A c then Eps else Null)"
| "deriv c (Alt r s) = Alt (deriv c r) (deriv c s)"
| "deriv c (Seq r s) =
     (if nullable r then Alt (Seq (deriv c r) s) (deriv c s) else Seq (deriv c r) s)"
| "deriv c (Star r) = Seq (deriv c r) (Star r)"

text \<open>\<^verbatim>\<open>re.match(pattern, s)\<close> is not \<^verbatim>\<open>None\<close>: a prefix of \<open>s\<close> matches.\<close>

fun re_match :: "rexp \<Rightarrow> string \<Rightarrow> bool" where
  "re_match r [] = nullable r"
| "re_match r (c # cs) = (nullable r \<or> re_match (deriv c r) cs)"

definition Opt :: "rexp \<Rightarrow> rexp" where
  "Opt r = Alt r Eps"

definition Plus :: "rexp \<Rightarrow> rexp" where
  "Plus r = Seq r (Star r)"

fun Lit :: "string \<Rightarrow> rexp" where
  "Lit [] = Eps"
| "Lit (c # cs) = Seq (Sym (Chr c)) (Lit cs)"

fun Seqs :: "rexp list \<Rightarrow> rexp" where
  "Seqs [] = Eps"
| "Seqs (r # rs) = Seq r (Seqs rs)"

fun Alts :: "rexp list \<Rightarrow> rexp" where
  "Alts [] = Null"
| "Alts [r] = r"
| "Alts (r # rs) = Alt r (Alts rs)"

section \<open>\<^verbatim>\<open>tools/check_code_metrics.py\<close>: the checker\<close>

text \<open>
  The pattern of \<^verbatim>\<open>find_dart_functions\<close>:
  \<^verbatim>\<open>^\s*(Future<.*?>|Stream<.*?>|void|bool|int|double|String|[\w<>]+)\s+\w+\s*\(\<close>
\<close>

definition dart_declaration :: rexp where
  "dart_declaration =
     Seqs [Star (Sym Space),
           Alts [Seqs [Lit ''Future<'', Star (Sym Dot), Lit ''>''],
                 Seqs [Lit ''Stream<'', Star (Sym Dot), Lit ''>''],
                 Lit ''void'', Lit ''bool'', Lit ''int'', Lit ''double'', Lit ''String'',
                 Plus (Sym (Either Word (Either (Chr (CHR ''<'')) (Chr (CHR ''>'')))))],
           Plus (Sym Space), Plus (Sym Word), Star (Sym Space), Lit ''('']"

text \<open>The pattern of \<^verbatim>\<open>find_rust_functions\<close>: \<^verbatim>\<open>^\s*(pub\s+)?(async\s+)?fn\s+\w+\<close>\<close>

definition rust_declaration :: rexp where
  "rust_declaration =
     Seqs [Star (Sym Space),
           Opt (Seqs [Lit ''pub'', Plus (Sym Space)]),
           Opt (Seqs [Lit ''async'', Plus (Sym Space)]),
           Lit ''fn'', Plus (Sym Space), Plus (Sym Word)]"

text \<open>
  The state of a \<^verbatim>\<open>CodeMetrics\<close> object: \<^verbatim>\<open>self.violations\<close> and \<^verbatim>\<open>self.stats\<close>, and what
  its methods printed. A violation dictionary is a value of \<open>violation\<close>: its
  \<^verbatim>\<open>'type'\<close> is the constructor, followed by \<^verbatim>\<open>'file'\<close>, (\<^verbatim>\<open>'function'\<close>,) \<^verbatim>\<open>'lines'\<close>,
  \<^verbatim>\<open>'limit'\<close> and, for a function, the \<^verbatim>\<open>'location'\<close> \<^verbatim>\<open>f'{file_path}:{start}'\<close> as the
  pair of its two parts.
\<close>

datatype violation =
    File_size string nat nat
  | Function_size string string nat nat "string \<times> nat"

record stats =
  total_files :: nat
  total_functions :: nat
  oversized_files :: nat
  oversized_functions :: nat
  max_file_size :: nat
  max_function_size :: nat

record CodeMetrics =
  violations :: "violation list"
  stats :: stats
  printed :: "message list"

text \<open>\<^verbatim>\<open>CodeMetrics.__init__\<close>\<close>

definition CodeMetrics_init :: CodeMetrics where
  "CodeMetrics_init =
     \<lparr>violations = [],
      stats = \<lparr>total_files = 0, total_functions = 0, oversized_files = 0,
               oversized_functions = 0, max_file_size = 0, max_function_size = 0\<rparr>,
      printed = []\<rparr>"

text \<open>
  \<^verbatim>\<open>check_file_size(file_path)\<close>: the object after the call and the value returned. An
  exception of \<^verbatim>\<open>open\<close> or \<^verbatim>\<open>readlines\<close> is caught by the method's \<^verbatim>\<open>except\<close>.
\<close>

definition check_file_size :: "filesystem \<Rightarrow> CodeMetrics \<Rightarrow> string \<Rightarrow> CodeMetrics \<times> bool" where
  "check_file_size fs self file_path =
     (case fs file_path of
        None \<Rightarrow> (self\<lparr>printed := printed self @ [Error_checking file_path]\<rparr>, True)
      | Some content \<Rightarrow>
          let lines = readlines content;
              code_lines = count_code_lines lines;
              self = self\<lparr>stats := (stats self)\<lparr>total_files := total_files (stats self) + 1\<rparr>\<rparr>;
              self = self\<lparr>stats := (stats self)
                       \<lparr>max_file_size := max (max_file_size (stats self)) code_lines\<rparr>\<rparr>
          in
          if code_lines > MAX_FILE_LINES then
            (self\<lparr>violations := violations self @ [File_size file_path code_lines MAX_FILE_LINES],
                  stats := (stats self)\<lparr>oversized_files := oversized_files (stats self) + 1\<rparr>\<rparr>,
             False)
          else (self, True))"

text \<open>
  \<^verbatim>\<open>find_dart_functions\<close> and \<^verbatim>\<open>find_rust_functions\<close> are the same loop over
  \<^verbatim>\<open>enumerate(lines)\<close> with two patterns. Its state is
  \<open>(functions, current_function, brace_count)\<close>; a record of \<open>functions\<close> is
  \<open>(name, start, end)\<close> with 1-based line numbers.
\<close>

type_synonym finder_state = "(string \<times> nat \<times> nat) list \<times> (string \<times> nat \<times> nat) option \<times> int"

definition find_functions_step :: "rexp \<Rightarrow> finder_state \<Rightarrow> nat \<times> string \<Rightarrow> finder_state" where
  "find_functions_step pattern st il =
     (case st of (functions, current_function, brace_count) \<Rightarrow>
      case il of (i, line) \<Rightarrow>
        let stripped = strip line;
            (current_function, brace_count) =
              (if re_match pattern line then
                 (if contains ''{'' line \<and> current_function = None then
                    (Some (stripped, i + 1, 0), net_braces line)
                  else (current_function, brace_count))
               else (current_function, brace_count))
        in
        (case current_function of
           None \<Rightarrow> (functions, current_function, brace_count)
         | Some f \<Rightarrow>
             let brace_count = brace_count + net_braces line in
             if brace_count = 0 then (functions @ [(fst f, fst (snd f), i + 1)], None, brace_count)
             else (functions, current_function, brace_count)))"

definition find_functions_loop :: "rexp \<Rightarrow> finder_state \<Rightarrow> (nat \<times> string) list \<Rightarrow> finder_state" where
  "find_functions_loop pattern st ils = foldl (find_functions_step pattern) st ils"

definition find_dart_functions :: "string list \<Rightarrow> (string \<times> nat \<times> nat) list" where
  "find_dart_functions lines =
     fst (find_functions_loop dart_declaration ([], None, 0) (enumerate 0 lines))"

definition find_rust_functions :: "string list \<Rightarrow> (string \<times> nat \<times> nat) list" where
  "find_rust_functions lines =
     fst (find_functions_loop rust_declaration ([], None, 0) (enumerate 0 lines))"

text \<open>
  \<^verbatim>\<open>xs[a:b]\<close> for indices that are not negative, and the \<^verbatim>\<open>name\<close> and \<^verbatim>\<open>suffix\<close> of a
  \<^verbatim>\<open>pathlib\<close> path: the last component, and what follows its last dot when that dot is
  neither its first nor its last character.
\<close>

definition slice :: "'a list \<Rightarrow> nat \<Rightarrow> nat \<Rightarrow> 'a list" where
  "slice xs a b = take (b - a) (drop a xs)"

definition path_name :: "string \<Rightarrow> string" where
  "path_name p = rev (takeWhile (\<lambda>c. c \<noteq> CHR ''/'') (rev p))"

definition path_suffix :: "string \<Rightarrow> string" where
  "path_suffix p =
     (let name = path_name p;
          ext = rev (takeWhile (\<lambda>c. c \<noteq> CHR ''.'') (rev name))
      in if CHR ''.'' \<in> set name \<and> ext \<noteq> [] \<and> length ext + 1 < length name
         then CHR ''.'' # ext else [])"

definition DART_EXTENSIONS :: "string list" where
  "DART_EXTENSIONS = [''.dart'']"

definition RUST_EXTENSIONS :: "string list" where
  "RUST_EXTENSIONS = [''.rs'']"

text \<open>The body of the \<^verbatim>\<open>for\<close> loop of \<^verbatim>\<open>check_function_sizes\<close>, on \<open>(self, all_pass)\<close>.\<close>

definition check_function_step ::
  "string \<Rightarrow> string list \<Rightarrow> CodeMetrics \<times> bool \<Rightarrow> string \<times> nat \<times> nat \<Rightarrow> CodeMetrics \<times> bool" where
  "check_function_step file_path lines st f =
     (case st of (self, all_pass) \<Rightarrow>
      case f of (func_name, start, end) \<Rightarrow>
        let function_lines = slice lines (start - 1) end;
            code_lines = count_code_lines function_lines;
            self = self\<lparr>stats := (stats self)\<lparr>total_functions := total_functions (stats self) + 1\<rparr>\<rparr>;
            self = self\<lparr>stats := (stats self)
                     \<lparr>max_function_size := max (max_function_size (stats self)) code_lines\<rparr>\<rparr>
        in
        if code_lines > MAX_FUNCTION_LINES then
          (self\<lparr>violations := violations self @
                   [Function_size file_path (take 60 func_name) code_lines MAX_FUNCTION_LINES
                      (file_path, start)],
                stats := (stats self)
                   \<lparr>oversized_functions := oversized_functions (stats self) + 1\<rparr>\<rparr>,
           False)
        else (self, all_pass))"

definition check_function_sizes ::
  "filesystem \<Rightarrow> CodeMetrics \<Rightarrow> string \<Rightarrow> CodeMetrics \<times> bool" where
  "check_function_sizes fs self file_path =
     (case fs file_path of
        None \<Rightarrow> (self\<lparr>printed := printed self @ [Error_checking_functions file_path]\<rparr>, True)
      | Some content \<Rightarrow>
          let lines = readlines content in
          if path_suffix file_path \<in> set DART_EXTENSIONS then
            foldl (check_function_step file_path lines) (self, True) (find_dart_functions lines)
          else if path_suffix file_path \<in> set RUST_EXTENSIONS then
            foldl (check_function_step file_path lines) (self, True) (find_rust_functions lines)
          else (self, True))"

definition EXCLUDE_DIRS :: "string list" where
  "EXCLUDE_DIRS = [''build'', ''target'', ''.dart_tool'', ''generated'', ''ios'', ''android'',
     ''windows'', ''linux'', ''macos'', ''web'']"

definition EXCLUDE_FILES :: "string list" where
  "EXCLUDE_FILES = [''_test.dart'', ''.g.dart'', ''.freezed.dart'']"

definition should_skip :: "string \<Rightarrow> bool" where
  "should_skip path =
     (if list_ex (\<lambda>exclude_dir. contains (''/'' @ exclude_dir @ ''/'') path
                               \<or> startswith path exclude_dir) EXCLUDE_DIRS
      then True
      else list_ex (\<lambda>exclude_file. contains exclude_file (path_name path)) EXCLUDE_FILES)"

text \<open>
  \<^verbatim>\<open>CodeMetrics.scan_directory\<close>. The walk of the directory tree belongs to the operating
  system: \<open>rglob ext\<close> is the list of paths that \<^verbatim>\<open>root_dir.rglob(f'*{ext}')\<close> yields, in
  the order it yields them.
\<close>

definition scan_file :: "filesystem \<Rightarrow> CodeMetrics \<Rightarrow> string \<Rightarrow> CodeMetrics" where
  "scan_file fs self file_path =
     (if should_skip file_path then self
      else fst (check_function_sizes fs (fst (check_file_size fs self file_path)) file_path))"

definition CodeMetrics_scan_directory :: "filesystem \<Rightarrow> (string \<Rightarrow> string list) \<Rightarrow> CodeMetrics \<Rightarrow> CodeMetrics" where
  "CodeMetrics_scan_directory fs rglob self =
     foldl (\<lambda>self ext. foldl (scan_file fs) self (rglob ext)) self
       (DART_EXTENSIONS @ RUST_EXTENSIONS)"

text \<open>
  \<^verbatim>\<open>CodeMetrics.generate_report\<close>: the dictionary it returns, as
  \<open>(compliance, statistics, violations, (total_violations, file_violations,
  function_violations))\<close>.
\<close>

definition CodeMetrics_generate_report ::
  "CodeMetrics \<Rightarrow> bool \<times> stats \<times> violation list \<times> (nat \<times> nat \<times> nat)" where
  "CodeMetrics_generate_report self =
     (length (violations self) = 0, stats self, violations self,
      (length (violations self), oversized_files (stats self), oversized_functions (stats self)))"

section \<open>\<^verbatim>\<open>scripts/verify_metrics.py\<close>: the analyzer\<close>

text \<open>
  The pattern of \<^verbatim>\<open>extract_dart_functions\<close>:
  \<^verbatim>\<open>^\s*(?:@\w+\s+)*(?:static\s+)?(?:final\s+)?(?:const\s+)?\<close>
  \<^verbatim>\<open>(?:Future<[^>]+>|Stream<[^>]+>|[A-Za-z_]\w*(?:<[^>]+>)?)\s+\<close>
  \<^verbatim>\<open>([A-Za-z_]\w*)\s*\([^)]*\)\s*(?:async\s*)?(?:=>|{)\<close>
\<close>

definition function_pattern_dart :: rexp where
  "function_pattern_dart =
     Seqs [Star (Sym Space),
           Star (Seqs [Lit ''@'', Plus (Sym Word), Plus (Sym Space)]),
           Opt (Seqs [Lit ''static'', Plus (Sym Space)]),
           Opt (Seqs [Lit ''final'', Plus (Sym Space)]),
           Opt (Seqs [Lit ''const'', Plus (Sym Space)]),
           Alts [Seqs [Lit ''Future<'', Plus (Sym (Except (CHR ''>''))), Lit ''>''],
                 Seqs [Lit ''Stream<'', Plus (Sym (Except (CHR ''>''))), Lit ''>''],
                 Seqs [Sym Letter, Star (Sym Word),
                       Opt (Seqs [Lit ''<'', Plus (Sym (Except (CHR ''>''))), Lit ''>''])]],
           Plus (Sym Space),
           Sym Letter, Star (Sym Word),
           Star (Sym Space),
           Lit ''('', Star (Sym (Except (CHR '')''))), Lit '')'',
           Star (Sym Space),
           Opt (Seqs [Lit ''async'', Star (Sym Space)]),
           Alt (Lit ''=>'') (Lit ''{'')]"

text \<open>
  The pattern of \<^verbatim>\<open>extract_rust_functions\<close>:
  \<^verbatim>\<open>^\s*(?:#\[[^\]]+\]\s*)*(?:pub(?:\([^)]+\))?\s+)?(?:async\s+)?(?:unsafe\s+)?fn\s+([A-Za-z_]\w*)\s*\<close>
\<close>

definition function_pattern_rust :: rexp where
  "function_pattern_rust =
     Seqs [Star (Sym Space),
           Star (Seqs [Lit ''#['', Plus (Sym (Except (CHR '']''))), Lit '']'', Star (Sym Space)]),
           Opt (Seqs [Lit ''pub'',
                      Opt (Seqs [Lit ''('', Plus (Sym (Except (CHR '')''))), Lit '')'']),
                      Plus (Sym Space)]),
           Opt (Seqs [Lit ''async'', Plus (Sym Space)]),
           Opt (Seqs [Lit ''unsafe'', Plus (Sym Space)]),
           Lit ''fn'', Plus (Sym Space), Sym Letter, Star (Sym Word), Star (Sym Space)]"

text \<open>
  The two dataclasses. The violations of a file are the two kinds of message that
  \<^verbatim>\<open>analyze_file\<close> formats, kept as their arguments: the limit and the measured count,
  and for a function its name and line number first.
\<close>

datatype finding =
    File_exceeds nat nat
  | Function_exceeds string nat nat nat

record FileMetrics =
  path :: string
  total_lines :: nat
  code_lines :: nat
  comment_lines :: nat
  blank_lines :: nat
  findings :: "finding list"

record FunctionMetrics =
  name :: string
  file_path :: string
  line_number :: nat
  function_code_lines :: nat

record MetricsAnalyzer =
  project_root :: string
  file_metrics :: "FileMetrics list"
  function_metrics :: "FunctionMetrics list"
  messages :: "message list"

text \<open>\<^verbatim>\<open>MetricsAnalyzer.__init__\<close>\<close>

definition MetricsAnalyzer_init :: "string \<Rightarrow> MetricsAnalyzer" where
  "MetricsAnalyzer_init root =
     \<lparr>project_root = root, file_metrics = [], function_metrics = [], messages = []\<rparr>"

text \<open>
  The loop that both extractors run over \<^verbatim>\<open>func_lines\<close> to count the code lines of one
  function, on the state \<open>(code_lines, in_block_comment)\<close>.
\<close>

definition function_lines_step :: "string \<Rightarrow> nat \<times> bool \<Rightarrow> string \<Rightarrow> nat \<times> bool" where
  "function_lines_step lang st func_line =
     (case st of (code, in_block) \<Rightarrow>
        let stripped = strip func_line in
        if is_blank_line func_line then (code, in_block)
        else if contains ''/*'' stripped then
          (code, (if contains ''*/'' stripped then False else True))
        else if in_block then
          (code, (if contains ''*/'' stripped then False else in_block))
        else if is_comment_line func_line lang then (code, in_block)
        else (code + 1, in_block))"

definition count_function_lines :: "string \<Rightarrow> string list \<Rightarrow> nat" where
  "count_function_lines lang func_lines =
     fst (foldl (function_lines_step lang) (0, False) func_lines)"

text \<open>
  The inner \<^verbatim>\<open>while\<close> loops, each on \<open>(func_lines, i)\<close> (and \<open>brace_count\<close>):
  \<^verbatim>\<open>while i < len(lines) and ';' not in lines[i]\<close>,
  \<^verbatim>\<open>while i < len(lines) and brace_count > 0\<close> and
  \<^verbatim>\<open>while i < len(lines) and '{' not in lines[i]\<close>.
\<close>

function arrow_scan :: "string list \<Rightarrow> string list \<Rightarrow> nat \<Rightarrow> string list \<times> nat" where
  "arrow_scan lines func_lines i =
     (if i < length lines \<and> \<not> contains '';'' (lines ! i)
      then arrow_scan lines (func_lines @ [lines ! i]) (i + 1)
      else (func_lines, i))"
  by pat_completeness auto
termination
  by (relation "measure (\<lambda>(lines, func_lines, i). length lines - i)") auto

function brace_scan :: "string list \<Rightarrow> string list \<Rightarrow> int \<Rightarrow> nat \<Rightarrow> string list \<times> nat" where
  "brace_scan lines func_lines brace_count i =
     (if i < length lines \<and> brace_count > 0
      then brace_scan lines (func_lines @ [lines ! i]) (brace_count + net_braces (lines ! i)) (i + 1)
      else (func_lines, i))"
  by pat_completeness auto
termination
  by (relation "measure (\<lambda>(lines, func_lines, brace_count, i). length lines - i)") auto

function open_scan :: "string list \<Rightarrow> string list \<Rightarrow> nat \<Rightarrow> string list \<times> nat" where
  "open_scan lines func_lines i =
     (if i < length lines \<and> \<not> contains ''{'' (lines ! i)
      then open_scan lines (func_lines @ [lines ! i]) (i + 1)
      else (func_lines, i))"
  by pat_completeness auto
termination
  by (relation "measure (\<lambda>(lines, func_lines, i). length lines - i)") auto

declare arrow_scan.simps [simp del] brace_scan.simps [simp del] open_scan.simps [simp del]

text \<open>
  What \<^verbatim>\<open>extract_dart_functions\<close> does at a line \<open>i\<close> that matches the pattern: the
  lines of the function and the index at which the outer loop goes on. The arrow branch
  leaves \<open>i\<close> on the line it appended last.
\<close>

definition dart_function_lines :: "string list \<Rightarrow> nat \<Rightarrow> string list \<times> nat" where
  "dart_function_lines lines i =
     (let line = lines ! i;
          is_arrow_function = contains ''=>'' line
      in
      if is_arrow_function then
        (case arrow_scan lines [lines ! i] (i + 1) of
           (func_lines, j) \<Rightarrow>
             if j < length lines then (func_lines @ [lines ! j], j) else (func_lines, j))
      else brace_scan lines [lines ! i] (net_braces line) (i + 1))"

lemma arrow_scan_index: "i \<le> snd (arrow_scan lines func_lines i)"
proof (induction lines func_lines i rule: arrow_scan.induct)
  case (1 lines func_lines i)
  then show ?case by (subst arrow_scan.simps) auto
qed

lemma brace_scan_index: "i \<le> snd (brace_scan lines func_lines brace_count i)"
proof (induction lines func_lines brace_count i rule: brace_scan.induct)
  case (1 lines func_lines brace_count i)
  then show ?case by (subst brace_scan.simps) auto
qed

lemma open_scan_index: "i \<le> snd (open_scan lines func_lines i)"
proof (induction lines func_lines i rule: open_scan.induct)
  case (1 lines func_lines i)
  then show ?case by (subst open_scan.simps) auto
qed

lemma dart_function_lines_index: "i < snd (dart_function_lines lines i)"
  using arrow_scan_index [of "i + 1" lines "[lines ! i]"]
    brace_scan_index [of "i + 1" lines "[lines ! i]" "net_braces (lines ! i)"]
  by (auto simp add: dart_function_lines_def Let_def split: prod.splits)

text \<open>
  The outer loop of \<^verbatim>\<open>extract_dart_functions\<close> from index \<open>i\<close>: the records it appends to
  \<^verbatim>\<open>functions\<close>, in order. \<open>group1 pattern line\<close> stands for \<^verbatim>\<open>match.group(1)\<close>, the name the
  pattern captures on a matching line (which text the capture is plays no part in what
  lines a function spans).
\<close>

function extract_dart_loop ::
  "(rexp \<Rightarrow> string \<Rightarrow> string) \<Rightarrow> string \<Rightarrow> string list \<Rightarrow> nat \<Rightarrow> FunctionMetrics list" where
  "extract_dart_loop group1 fpath lines i =
     (if i < length lines then
        if re_match function_pattern_dart (lines ! i) then
          \<lparr>name = group1 function_pattern_dart (lines ! i), file_path = fpath,
            line_number = i + 1,
            function_code_lines = count_function_lines ''dart'' (fst (dart_function_lines lines i))\<rparr>
          # extract_dart_loop group1 fpath lines (snd (dart_function_lines lines i))
        else extract_dart_loop group1 fpath lines (i + 1)
      else [])"
  by pat_completeness auto
termination
  by (relation "measure (\<lambda>(group1, fpath, lines, i). length lines - i)")
     (use dart_function_lines_index in \<open>auto simp add: diff_less_mono2\<close>)

text \<open>
  What \<^verbatim>\<open>extract_rust_functions\<close> does at a matching line \<open>i\<close>: \<open>None\<close> when no line from
  \<open>i\<close> on contains an opening brace (the \<^verbatim>\<open>break\<close>), otherwise the lines of the function
  and the next index.
\<close>

definition rust_function_lines :: "string list \<Rightarrow> nat \<Rightarrow> (string list \<times> nat) option" where
  "rust_function_lines lines i =
     (case open_scan lines [] i of
        (func_lines, j) \<Rightarrow>
          if j \<ge> length lines then None
          else Some (brace_scan lines (func_lines @ [lines ! j]) (net_braces (lines ! j)) (j + 1)))"

lemma rust_function_lines_index:
  assumes "rust_function_lines lines i = Some (func_lines, k)"
  shows "i < k"
proof -
  obtain fl j where o: "open_scan lines [] i = (fl, j)"
    by (cases "open_scan lines [] i")
  have ij: "i \<le> j"
    using open_scan_index [of i lines "[]"] o by simp
  have "k = snd (brace_scan lines (fl @ [lines ! j]) (net_braces (lines ! j)) (j + 1))"
    using assms o by (auto simp add: rust_function_lines_def split: if_splits)
  then have "j + 1 \<le> k"
    using brace_scan_index [of "j + 1" lines "fl @ [lines ! j]" "net_braces (lines ! j)"] by simp
  with ij show ?thesis by simp
qed

function extract_rust_loop ::
  "(rexp \<Rightarrow> string \<Rightarrow> string) \<Rightarrow> string \<Rightarrow> string list \<Rightarrow> nat \<Rightarrow> FunctionMetrics list" where
  "extract_rust_loop group1 fpath lines i =
     (if i < length lines then
        if re_match function_pattern_rust (lines ! i) then
          (case rust_function_lines lines i of
             None \<Rightarrow> []
           | Some (func_lines, k) \<Rightarrow>
               \<lparr>name = group1 function_pattern_rust (lines ! i), file_path = fpath,
                 line_number = i + 1,
                 function_code_lines = count_function_lines ''rust'' func_lines\<rparr>
               # extract_rust_loop group1 fpath lines k)
        else extract_rust_loop group1 fpath lines (i + 1)
      else [])"
  by pat_completeness auto
termination
  by (relation "measure (\<lambda>(group1, fpath, lines, i). length lines - i)")
     (use rust_function_lines_index in \<open>auto simp add: diff_less_mono2\<close>)

declare extract_dart_loop.simps [simp del] extract_rust_loop.simps [simp del]

text \<open>
  \<^verbatim>\<open>extract_dart_functions(file_path)\<close> and \<^verbatim>\<open>extract_rust_functions(file_path)\<close>: the
  records, and what the call printed.
\<close>

definition extract_dart_functions ::
  "filesystem \<Rightarrow> (rexp \<Rightarrow> string \<Rightarrow> string) \<Rightarrow> string \<Rightarrow> FunctionMetrics list \<times> message list" where
  "extract_dart_functions fs group1 fpath =
     (case fs fpath of
        None \<Rightarrow> ([], [Error_reading fpath])
      | Some content \<Rightarrow> (extract_dart_loop group1 fpath (split_newline content) 0, []))"

definition extract_rust_functions ::
  "filesystem \<Rightarrow> (rexp \<Rightarrow> string \<Rightarrow> string) \<Rightarrow> string \<Rightarrow> FunctionMetrics list \<times> message list" where
  "extract_rust_functions fs group1 fpath =
     (case fs fpath of
        None \<Rightarrow> ([], [Error_reading fpath])
      | Some content \<Rightarrow> (extract_rust_loop group1 fpath (split_newline content) 0, []))"

text \<open>
  \<^verbatim>\<open>file_path.relative_to(self.project_root)\<close>. \<^verbatim>\<open>scan_directory\<close> passes only paths that
  \<^verbatim>\<open>rglob\<close> found below a directory of the project root, which are the root, a separator
  and the relative path.
\<close>

definition relative_to :: "string \<Rightarrow> string \<Rightarrow> string" where
  "relative_to fpath root = drop (length root + 1) fpath"

text \<open>The body of the loop of \<^verbatim>\<open>analyze_file\<close> over the functions, on \<open>(violations, self)\<close>
  (the list \<^verbatim>\<open>violations\<close> of the method is \<open>violations'\<close> here).\<close>

definition analyze_function_step ::
  "finding list \<times> MetricsAnalyzer \<Rightarrow> FunctionMetrics \<Rightarrow> finding list \<times> MetricsAnalyzer" where
  "analyze_function_step st func =
     (case st of (violations', self) \<Rightarrow>
        let violations' =
              (if function_code_lines func > MAX_FUNCTION_LINES then
                 violations' @ [Function_exceeds (name func) (line_number func) MAX_FUNCTION_LINES
                                 (function_code_lines func)]
               else violations')
        in (violations', self\<lparr>function_metrics := function_metrics self @ [func]\<rparr>))"

definition analyze_file ::
  "filesystem \<Rightarrow> (rexp \<Rightarrow> string \<Rightarrow> string) \<Rightarrow> MetricsAnalyzer \<Rightarrow> string \<Rightarrow> string
     \<Rightarrow> FileMetrics \<times> MetricsAnalyzer" where
  "analyze_file fs group1 self fpath lang =
     (case count_file_lines fs fpath lang of
        ((n, code, comments, blanks), printed1) \<Rightarrow>
          let self = self\<lparr>messages := messages self @ printed1\<rparr>;
              violations' =
                (if code > MAX_FILE_LINES then [File_exceeds MAX_FILE_LINES code] else []);
              (functions, printed2) =
                (if lang = ''dart'' then extract_dart_functions fs group1 fpath
                 else if lang = ''rust'' then extract_rust_functions fs group1 fpath
                 else ([], []));
              self = self\<lparr>messages := messages self @ printed2\<rparr>;
              (violations', self) = foldl analyze_function_step (violations', self) functions;
              rel_path = relative_to fpath (project_root self)
          in (\<lparr>path = rel_path, total_lines = n, code_lines = code, comment_lines = comments,
                blank_lines = blanks, findings = violations'\<rparr>, self))"

text \<open>
  \<^verbatim>\<open>MetricsAnalyzer.scan_directory(directory, pattern, lang)\<close>; \<open>found\<close> is the list of
  paths that \<^verbatim>\<open>directory.rglob(pattern)\<close> yields, in the order it yields them.
\<close>

definition scan_directory_step ::
  "filesystem \<Rightarrow> (rexp \<Rightarrow> string \<Rightarrow> string) \<Rightarrow> string \<Rightarrow> MetricsAnalyzer \<Rightarrow> string
     \<Rightarrow> MetricsAnalyzer" where
  "scan_directory_step fs group1 lang self fpath =
     (if list_ex (\<lambda>x. contains x fpath)
           [''/build/'', ''/.dart_tool/'', ''/target/'', ''.g.dart'', ''.freezed.dart'',
            ''generated'']
      then self
      else
        (case analyze_file fs group1 self fpath lang of
           (metrics, self) \<Rightarrow> self\<lparr>file_metrics := file_metrics self @ [metrics]\<rparr>))"

definition MetricsAnalyzer_scan_directory ::
  "filesystem \<Rightarrow> (rexp \<Rightarrow> string \<Rightarrow> string) \<Rightarrow> MetricsAnalyzer \<Rightarrow> string list \<Rightarrow> string
     \<Rightarrow> MetricsAnalyzer" where
  "MetricsAnalyzer_scan_directory fs group1 self found lang =
     foldl (scan_directory_step fs group1 lang) self found"

text \<open>
  Python's \<^verbatim>\<open>sorted(xs, key=key, reverse=True)\<close>: a stable sort into descending order of
  the key. It is the library's, modelled as insertion of each element, in the order of
  \<open>xs\<close>, behind the elements whose key is not smaller.
\<close>

fun insert_descending :: "('a \<Rightarrow> nat) \<Rightarrow> 'a \<Rightarrow> 'a list \<Rightarrow> 'a list" where
  "insert_descending key x [] = [x]"
| "insert_descending key x (y # ys) =
     (if key y < key x then x # y # ys else y # insert_descending key x ys)"

definition sorted_reverse :: "('a \<Rightarrow> nat) \<Rightarrow> 'a list \<Rightarrow> 'a list" where
  "sorted_reverse key xs = foldl (\<lambda>acc x. insert_descending key x acc) [] xs"

text \<open>
  \<^verbatim>\<open>MetricsAnalyzer.generate_report\<close>, as the data that the text of the report renders:
  the four numbers of the summary, the files listed under VIOLATIONS, and the two tables.
\<close>

record report =
  summary_total_files :: nat
  summary_total_code_lines :: nat
  summary_files_with_violations :: nat
  summary_total_violations :: nat
  violation_listing :: "FileMetrics list"
  largest_files :: "FileMetrics list"
  largest_functions :: "FunctionMetrics list"

definition MetricsAnalyzer_generate_report :: "MetricsAnalyzer \<Rightarrow> report" where
  "MetricsAnalyzer_generate_report self =
     (let total_files = length (file_metrics self);
          total_code_lines = sum_list (map code_lines (file_metrics self));
          total_violations = sum_list (map (\<lambda>f. length (findings f)) (file_metrics self));
          files_with_violations = length (filter (\<lambda>f. findings f \<noteq> []) (file_metrics self))
      in
      \<lparr>summary_total_files = total_files,
       summary_total_code_lines = total_code_lines,
       summary_files_with_violations = files_with_violations,
       summary_total_violations = total_violations,
       violation_listing =
         (if total_violations > 0 then
            filter (\<lambda>metrics. findings metrics \<noteq> [])
              (sorted_reverse (\<lambda>x. length (findings x)) (file_metrics self))
          else []),
       largest_files = take 10 (sorted_reverse code_lines (file_metrics self)),
       largest_functions = take 10 (sorted_reverse function_code_lines (function_metrics self))\<rparr>)"

text \<open>
  \<^verbatim>\<open>main\<close> of \<^verbatim>\<open>verify_metrics.py\<close>: a new analyzer, the three scans, the report and the
  exit status. \<open>lib\<close>, \<open>test\<close> and \<open>rust_src\<close> are what \<^verbatim>\<open>rglob\<close> yields in the three
  directories.
\<close>

definition verify_metrics_main ::
  "filesystem \<Rightarrow> (rexp \<Rightarrow> string \<Rightarrow> string) \<Rightarrow> string \<Rightarrow> string list \<Rightarrow> string list \<Rightarrow> string list
     \<Rightarrow> report \<times> nat" where
  "verify_metrics_main fs group1 root lib test rust_src =
     (let analyzer = MetricsAnalyzer_init root;
          analyzer = MetricsAnalyzer_scan_directory fs group1 analyzer lib ''dart'';
          analyzer = MetricsAnalyzer_scan_directory fs group1 analyzer test ''dart'';
          analyzer = MetricsAnalyzer_scan_directory fs group1 analyzer rust_src ''rust'';
          report = MetricsAnalyzer_generate_report analyzer;
          total_violations = sum_list (map (\<lambda>f. length (findings f)) (file_metrics analyzer))
      in (report, if total_violations > 0 then 1 else 0))"

section \<open>Line classification\<close>

lemma count_file_lines_step_sum:
  assumes "count_file_lines_step lang (code, comment, blank, b) line = (code', comment', blank', b')"
  shows "code' + comment' + blank' = code + comment + blank + 1"
  using assms by (auto simp add: count_file_lines_step_def Let_def split: if_splits)

lemma count_file_lines_loop_sum:
  assumes "foldl (count_file_lines_step lang) (code, comment, blank, b) lines
             = (code', comment', blank', b')"
  shows "code' + comment' + blank' = code + comment + blank + length lines"
  using assms
proof (induction lines arbitrary: code comment blank b)
  case Nil
  then show ?case by simp
next
  case (Cons l ls)
  obtain c1 m1 b1 f1 where s: "count_file_lines_step lang (code, comment, blank, b) l = (c1, m1, b1, f1)"
    by (cases "count_file_lines_step lang (code, comment, blank, b) l") auto
  have "code' + comment' + blank' = c1 + m1 + b1 + length ls"
    using Cons.IH [of c1 m1 b1 f1] Cons.prems s by simp
  with count_file_lines_step_sum [OF s] show ?case by simp
qed

text \<open>
  C1. Whatever the file, the loop of \<^verbatim>\<open>count_file_lines\<close> adds one to exactly one of its
  three counters at every line, so the code, comment and blank counts it returns add up
  to \<^verbatim>\<open>total_lines\<close>, which is the number of physical lines \<^verbatim>\<open>readlines\<close> gave (and all
  four numbers are 0 for a file that cannot be read).
\<close>

theorem count_file_lines_partition:
  assumes "count_file_lines fs fpath lang = ((n, code, comment, blank), printed_out)"
  shows "code + comment + blank = n
    \<and> n = (case fs fpath of None \<Rightarrow> 0 | Some content \<Rightarrow> length (readlines content))"
proof (cases "fs fpath")
  case None
  with assms show ?thesis by (simp add: count_file_lines_def)
next
  case (Some content)
  obtain c m b f where l:
    "foldl (count_file_lines_step lang) (0, 0, 0, False) (readlines content) = (c, m, b, f)"
    by (cases "foldl (count_file_lines_step lang) (0, 0, 0, False) (readlines content)") auto
  from count_file_lines_loop_sum [OF l] assms Some l show ?thesis
    by (simp add: count_file_lines_def Let_def)
qed

theorem count_file_lines_partition_witness:
  "count_file_lines
     (\<lambda>p. if p = ''lib/a.dart'' then Some ''// c\<newline>\<newline>int x;\<newline>/* b\<newline>int y;\<newline>*/\<newline>int z;'' else None)
     ''lib/a.dart'' ''dart'' = ((7, 2, 4, 1), [])
   \<and> (2::nat) + 4 + 1 = 7"
proof -
  have e: "count_file_lines
     (\<lambda>p. if p = ''lib/a.dart'' then Some ''// c\<newline>\<newline>int x;\<newline>/* b\<newline>int y;\<newline>*/\<newline>int z;'' else None)
     ''lib/a.dart'' ''dart'' = ((7, 2, 4, 1), [])"
    by (simp add: count_file_lines_def count_file_lines_step_def is_blank_line_def
        is_comment_line_def strip_def isspace_def whitespace_def Let_def)
  from count_file_lines_partition [OF e] e show ?thesis by simp
qed

lemma contains_nonempty: "contains (a # as) s \<Longrightarrow> s \<noteq> []"
  by auto

lemma count_code_lines_step_shift:
  "count_code_lines_step (c, b) line =
     (c + fst (count_code_lines_step (0, b) line), snd (count_code_lines_step (0, b) line))"
  by (simp add: count_code_lines_step_def Let_def)

lemma count_code_lines_loop_shift:
  "foldl count_code_lines_step (c, b) lines =
     (c + fst (foldl count_code_lines_step (0, b) lines),
      snd (foldl count_code_lines_step (0, b) lines))"
proof (induction lines arbitrary: c b)
  case Nil
  show ?case by simp
next
  case (Cons l ls)
  obtain d b' where s: "count_code_lines_step (0, b) l = (d, b')"
    by (cases "count_code_lines_step (0, b) l")
  have s': "count_code_lines_step (c, b) l = (c + d, b')"
    using count_code_lines_step_shift [of c b l] s by simp
  show ?case
    using Cons.IH [of "c + d" b'] Cons.IH [of d b'] s s' by simp
qed

lemma count_code_lines_step_close:
  "contains ''*/'' (strip line) \<Longrightarrow> count_code_lines_step (c, b) line = (c, False)"
  using contains_nonempty [of "CHR ''*''" "''/''" "strip line"]
  by (simp add: count_code_lines_step_def Let_def)

text \<open>
  C10. In \<^verbatim>\<open>check_code_metrics.count_code_lines\<close>, a line whose stripped text contains
  \<^verbatim>\<open>*/\<close> leaves the count as it is and leaves the block-comment flag cleared, whatever
  the flag was before, so also when no block comment was open. Such a line is never
  counted: a file counts as many code lines with it as the lines before it and the lines
  after it count on their own.
\<close>

theorem close_marker_line_never_code:
  assumes "contains ''*/'' (strip line)"
  shows "count_code_lines_step (count, in_block) line = (count, False)
    \<and> count_code_lines (before @ line # after) = count_code_lines before + count_code_lines after"
proof -
  obtain c b where p: "foldl count_code_lines_step (0, False) before = (c, b)"
    by (cases "foldl count_code_lines_step (0, False) before")
  have "foldl count_code_lines_step (0, False) (before @ line # after)
      = foldl count_code_lines_step (c, False) after"
    using p count_code_lines_step_close [OF assms, of c b] by simp
  also have "\<dots> = (c + fst (foldl count_code_lines_step (0, False) after),
      snd (foldl count_code_lines_step (0, False) after))"
    by (rule count_code_lines_loop_shift)
  finally show ?thesis
    using p count_code_lines_step_close [OF assms, of count in_block]
    by (simp add: count_code_lines_def)
qed

theorem close_marker_line_never_code_witness:
  "count_code_lines_step (0, False) ''int x = a */ b;'' = (0, False)
    \<and> count_code_lines [''int y = 1;'', ''int x = a */ b;'', ''int z = 2;''] = 2
    \<and> count_code_lines [''int x = a */ b;''] = 0"
proof -
  have h: "contains ''*/'' (strip ''int x = a */ b;'')"
    by (simp add: strip_def isspace_def whitespace_def)
  have c1: "count_code_lines [''int y = 1;''] = 1"
    by (simp add: count_code_lines_def count_code_lines_step_def strip_def isspace_def whitespace_def)
  have c2: "count_code_lines [''int z = 2;''] = 1"
    by (simp add: count_code_lines_def count_code_lines_step_def strip_def isspace_def whitespace_def)
  have c0: "count_code_lines [] = 0"
    by (simp add: count_code_lines_def)
  show ?thesis
    using close_marker_line_never_code [OF h, of 0 False "[''int y = 1;'']" "[''int z = 2;'']"]
      close_marker_line_never_code [OF h, of 0 False "[]" "[]"] c0 c1 c2
    by simp
qed

section \<open>Thresholds\<close>

lemma check_function_step_violations:
  "violations (fst (check_function_step fpath lines (self, ok) (func_name, start, end))) =
     violations self @
       (if count_code_lines (slice lines (start - 1) end) > MAX_FUNCTION_LINES
        then [Function_size fpath (take 60 func_name) (count_code_lines (slice lines (start - 1) end))
                MAX_FUNCTION_LINES (fpath, start)]
        else [])"
  by (simp add: check_function_step_def Let_def)

lemma check_function_loop_violations:
  "violations (fst (foldl (check_function_step fpath lines) (self, ok) funcs)) =
     violations self @
       map (\<lambda>(func_name, start, end).
              Function_size fpath (take 60 func_name) (count_code_lines (slice lines (start - 1) end))
                MAX_FUNCTION_LINES (fpath, start))
         (filter (\<lambda>(func_name, start, end).
                    count_code_lines (slice lines (start - 1) end) > MAX_FUNCTION_LINES) funcs)"
proof (induction funcs arbitrary: self ok)
  case Nil
  show ?case by simp
next
  case (Cons f fs)
  obtain func_name start "end" where f: "f = (func_name, start, end)"
    by (cases f) auto
  obtain self' ok' where s: "check_function_step fpath lines (self, ok) f = (self', ok')"
    by (cases "check_function_step fpath lines (self, ok) f")
  have v: "violations self' = violations self @
       (if count_code_lines (slice lines (start - 1) end) > MAX_FUNCTION_LINES
        then [Function_size fpath (take 60 func_name) (count_code_lines (slice lines (start - 1) end))
                MAX_FUNCTION_LINES (fpath, start)]
        else [])"
    using check_function_step_violations [of fpath lines self ok func_name start "end"] s f
    by simp
  show ?case
    using Cons.IH [of self' ok'] s v f by simp
qed

text \<open>
  C2. \<^verbatim>\<open>check_file_size\<close> appends one \<^verbatim>\<open>file_size\<close> violation when the code-line count
  of the file is greater than \<^verbatim>\<open>MAX_FILE_LINES\<close> = 500 and none otherwise, and
  \<^verbatim>\<open>check_function_sizes\<close> appends one \<^verbatim>\<open>function_size\<close> violation for each function
  found whose code-line count is greater than \<^verbatim>\<open>MAX_FUNCTION_LINES\<close> = 50 and none for
  the others: a count equal to the limit records nothing, a count of the limit plus one
  records exactly one violation.
\<close>

theorem violation_iff_limit_exceeded:
  assumes "fs fpath = Some content"
  shows "violations (fst (check_file_size fs self fpath)) =
           violations self @
             (if count_code_lines (readlines content) > 500
              then [File_size fpath (count_code_lines (readlines content)) 500] else [])
    \<and> violations (fst (check_function_sizes fs self fpath)) =
           violations self @
             map (\<lambda>(func_name, start, end).
                    Function_size fpath (take 60 func_name)
                      (count_code_lines (slice (readlines content) (start - 1) end)) 50 (fpath, start))
               (filter (\<lambda>(func_name, start, end).
                          count_code_lines (slice (readlines content) (start - 1) end) > 50)
                  (if path_suffix fpath = ''.dart'' then find_dart_functions (readlines content)
                   else if path_suffix fpath = ''.rs'' then find_rust_functions (readlines content)
                   else []))"
proof -
  have size_file: "violations (fst (check_file_size fs self fpath)) =
           violations self @
             (if count_code_lines (readlines content) > 500
              then [File_size fpath (count_code_lines (readlines content)) 500] else [])"
    using assms by (simp add: check_file_size_def Let_def MAX_FILE_LINES_def)
  have size_func: "violations (fst (check_function_sizes fs self fpath)) =
           violations self @
             map (\<lambda>(func_name, start, end).
                    Function_size fpath (take 60 func_name)
                      (count_code_lines (slice (readlines content) (start - 1) end)) 50 (fpath, start))
               (filter (\<lambda>(func_name, start, end).
                          count_code_lines (slice (readlines content) (start - 1) end) > 50)
                  (if path_suffix fpath = ''.dart'' then find_dart_functions (readlines content)
                   else if path_suffix fpath = ''.rs'' then find_rust_functions (readlines content)
                   else []))"
    using assms check_function_loop_violations [of fpath "readlines content" self True]
    by (simp add: check_function_sizes_def Let_def DART_EXTENSIONS_def RUST_EXTENSIONS_def
        MAX_FUNCTION_LINES_def)
  from size_file size_func show ?thesis by (rule conjI)
qed

text \<open>
  The witness is a class of 53 lines, all of them code, whose method \<open>f\<close> has 49
  statements: the file stays under its limit, and the function that \<^verbatim>\<open>find_dart_functions\<close>
  records (lines 2 to 53, 52 code lines) is over the limit of 50.
\<close>

theorem violation_iff_limit_exceeded_witness:
  "violations (fst (check_file_size
       (\<lambda>p. if p = ''lib/a.dart'' then Some (''class A {\<newline>  void f() {\<newline>'' @ concat (replicate 49 ''    x;\<newline>'')
            @ ''  }\<newline>}\<newline>'') else None)
       CodeMetrics_init ''lib/a.dart'')) = []
   \<and> violations (fst (check_function_sizes
       (\<lambda>p. if p = ''lib/a.dart'' then Some (''class A {\<newline>  void f() {\<newline>'' @ concat (replicate 49 ''    x;\<newline>'')
            @ ''  }\<newline>}\<newline>'') else None)
       CodeMetrics_init ''lib/a.dart''))
     = [Function_size ''lib/a.dart'' ''void f() {'' 52 50 (''lib/a.dart'', 2)]"
proof -
  define content where "content = (''class A {\<newline>  void f() {\<newline>'' @ concat (replicate 49 ''    x;\<newline>'')
            @ ''  }\<newline>}\<newline>'')"
  define fs :: filesystem where "fs = (\<lambda>p. if p = ''lib/a.dart'' then Some content else None)"
  have h: "fs ''lib/a.dart'' = Some content"
    by (simp add: fs_def)
  have e1: "count_code_lines (readlines content) = 53"
    unfolding content_def by code_simp
  have e2: "path_suffix ''lib/a.dart'' = ''.dart''"
    by code_simp
  have e3: "find_dart_functions (readlines content) = [(''void f() {'', 2, 53)]"
    unfolding content_def by code_simp
  have e4: "count_code_lines (slice (readlines content) (Suc 0) 53) = 52"
    unfolding content_def by code_simp
  have "violations (fst (check_file_size fs CodeMetrics_init ''lib/a.dart'')) = []
   \<and> violations (fst (check_function_sizes fs CodeMetrics_init ''lib/a.dart''))
     = [Function_size ''lib/a.dart'' ''void f() {'' 52 50 (''lib/a.dart'', 2)]"
    using violation_iff_limit_exceeded [of fs "''lib/a.dart''" content CodeMetrics_init, OF h] e1 e2 e3 e4
    by (simp add: CodeMetrics_init_def)
  then show ?thesis
    unfolding fs_def content_def .
qed

end
